theory Spec2Isabelle
  imports Main "HOL-Library.Word"
begin

section \<open>Object identifiers (bson/primitive)\<close>

text \<open>
  \<open>primitive.ObjectID\<close> is a \<open>[12]byte\<close> array: twelve bytes, read here as one 96-bit
  number with the first byte most significant. \<open>NilObjectID\<close> is the zero value.
  \<open>Hex\<close> writes the 24 lower-case hexadecimal digits of the twelve bytes, first byte
  first; \<open>ObjectIDFromHex\<close> accepts exactly the strings of 24 hexadecimal digits (either
  case) and returns \<open>NilObjectID\<close> together with an error for every other string.
\<close>

type_synonym ObjectID = "96 word"

definition NilObjectID :: ObjectID where
  "NilObjectID = 0"

definition hextable :: string where
  "hextable = ''0123456789abcdef''"

text \<open>The \<open>k\<close> low hexadecimal digits of \<open>n\<close>, most significant first.\<close>

fun hex_digits :: "nat \<Rightarrow> nat \<Rightarrow> nat list" where
  "hex_digits 0 n = []"
| "hex_digits (Suc k) n = hex_digits k (n div 16) @ [n mod 16]"

definition Hex :: "ObjectID \<Rightarrow> string" where
  "Hex oid = map (\<lambda>d. hextable ! d) (hex_digits 24 (unat oid))"

text \<open>\<open>encoding/hex\<close>: the value of one hexadecimal digit, or no value.\<close>

definition fromHexChar :: "char \<Rightarrow> nat option" where
  "fromHexChar c =
     (let n = (of_char c :: nat) in
      if 48 \<le> n \<and> n \<le> 57 then Some (n - 48)
      else if 97 \<le> n \<and> n \<le> 102 then Some (n - 97 + 10)
      else if 65 \<le> n \<and> n \<le> 70 then Some (n - 65 + 10)
      else None)"

fun decode_digits :: "string \<Rightarrow> nat list option" where
  "decode_digits [] = Some []"
| "decode_digits (c # cs) =
     (case fromHexChar c of
        None \<Rightarrow> None
      | Some d \<Rightarrow> (case decode_digits cs of None \<Rightarrow> None | Some ds \<Rightarrow> Some (d # ds)))"

datatype hex_error = ErrInvalidHex | InvalidByteError

definition ObjectIDFromHex :: "string \<Rightarrow> ObjectID \<times> hex_error option" where
  "ObjectIDFromHex s =
     (if length s \<noteq> 24 then (NilObjectID, Some ErrInvalidHex)
      else case decode_digits s of
             None \<Rightarrow> (NilObjectID, Some InvalidByteError)
           | Some ds \<Rightarrow> (word_of_nat (foldl (\<lambda>a d. 16 * a + d) 0 ds), None))"

section \<open>Data model (models.go)\<close>

text \<open>
  \<open>primitive.DateTime\<close> counts milliseconds since the Unix epoch. A \<open>time.Time\<close> is
  modelled by its count of nanoseconds since the epoch.
\<close>

type_synonym DateTime = int
type_synonym Time = int

record User =
  ID :: ObjectID
  Username :: string
  Password :: string

record Task =
  ID :: ObjectID
  UserID :: ObjectID
  Title :: string
  Description :: string
  AllottedTo :: string
  DoneBy :: string
  Status :: string
  StartDate :: DateTime
  EndDate :: DateTime

text \<open>The zero value a Go variable of type \<open>models.User\<close> starts with.\<close>

definition zero_User :: User where
  "zero_User = \<lparr>User.ID = NilObjectID, Username = [], Password = []\<rparr>"

definition Unix :: "Time \<Rightarrow> int" where
  "Unix t = t div 1000000000"

definition NewDateTimeFromTime :: "Time \<Rightarrow> DateTime" where
  "NewDateTimeFromTime t = t div 1000000"

text \<open>
  \<open>time.Second * time.Duration(n)\<close>: a product of two \<open>int64\<close> values, which wraps
  around; the result is a number of nanoseconds.
\<close>

definition Seconds :: "int \<Rightarrow> int" where
  "Seconds n = sint (word_of_int (1000000000 * n) :: 64 word)"

section \<open>The document store (database.go and the driver's collection primitives)\<close>

text \<open>
  \<open>database.UsersCollection\<close> and \<open>database.TasksCollection\<close> are the two global
  collection handles. A collection is the list of its documents in insertion order.
  Every primitive takes a flag saying that the driver call fails (network, timeout):
  then it returns an error and leaves the collection as it was.
\<close>

record DB =
  UsersCollection :: "User list"
  TasksCollection :: "Task list"

datatype mongo_error = ErrNoDocuments | DuplicateKey | ImmutableField | DriverError

text \<open>Filter documents: \<open>bson.M{"username": n}\<close>, \<open>bson.M{"userId": u}\<close> and
  \<open>bson.M{"_id": t, "userId": u}\<close>.\<close>

definition username_is :: "string \<Rightarrow> User \<Rightarrow> bool" where
  "username_is n u = (Username u = n)"

definition owner_is :: "ObjectID \<Rightarrow> Task \<Rightarrow> bool" where
  "owner_is u t = (UserID t = u)"

definition id_and_owner_are :: "ObjectID \<Rightarrow> ObjectID \<Rightarrow> Task \<Rightarrow> bool" where
  "id_and_owner_are tid u t = (ID t = tid \<and> UserID t = u)"

text \<open>\<open>FindOne\<close>: the first document the filter accepts, or \<open>ErrNoDocuments\<close>.\<close>

definition FindOne :: "bool \<Rightarrow> ('d \<Rightarrow> bool) \<Rightarrow> 'd list \<Rightarrow> mongo_error + 'd" where
  "FindOne fails flt coll =
     (if fails then Inl DriverError
      else case find flt coll of None \<Rightarrow> Inl ErrNoDocuments | Some d \<Rightarrow> Inr d)"

text \<open>\<open>SingleResult.Decode(&v)\<close>: on an error the variable keeps its value.\<close>

definition Decode :: "mongo_error + 'd \<Rightarrow> 'd \<Rightarrow> 'd \<times> mongo_error option" where
  "Decode r v = (case r of Inl e \<Rightarrow> (v, Some e) | Inr d \<Rightarrow> (d, None))"

text \<open>\<open>Find\<close> followed by \<open>cursor.All\<close>: every document the filter accepts.\<close>

definition Find :: "bool \<Rightarrow> ('d \<Rightarrow> bool) \<Rightarrow> 'd list \<Rightarrow> mongo_error + 'd list" where
  "Find fails flt coll = (if fails then Inl DriverError else Inr (filter flt coll))"

text \<open>
  \<open>InsertOne\<close>. Both structs tag their identifier \<open>bson:"_id,omitempty"\<close>: a document
  whose identifier is the zero value is written without \<open>_id\<close> and the driver gives it the
  identifier \<open>generated\<close>. An identifier already in the collection is a duplicate key
  error. The result carries \<open>InsertedID\<close>.
\<close>

definition InsertOne_User ::
  "bool \<Rightarrow> ObjectID \<Rightarrow> User \<Rightarrow> User list \<Rightarrow> mongo_error + (ObjectID \<times> User list)" where
  "InsertOne_User fails generated u coll =
     (if fails then Inl DriverError
      else let oid = (if User.ID u = NilObjectID then generated else User.ID u)
           in if oid \<in> set (map User.ID coll) then Inl DuplicateKey
              else Inr (oid, coll @ [u\<lparr>User.ID := oid\<rparr>]))"

definition InsertOne_Task ::
  "bool \<Rightarrow> ObjectID \<Rightarrow> Task \<Rightarrow> Task list \<Rightarrow> mongo_error + (ObjectID \<times> Task list)" where
  "InsertOne_Task fails generated t coll =
     (if fails then Inl DriverError
      else let oid = (if ID t = NilObjectID then generated else ID t)
           in if oid \<in> set (map ID coll) then Inl DuplicateKey
              else Inr (oid, coll @ [t\<lparr>ID := oid\<rparr>]))"

text \<open>
  The update document \<open>bson.M{"$set": task}\<close> overwrites every field the struct
  marshals: all of them, except \<open>_id\<close> when it is the zero value (\<open>omitempty\<close>).
\<close>

definition set_fields :: "Task \<Rightarrow> Task \<Rightarrow> Task" where
  "set_fields upd doc =
     doc\<lparr>ID := (if ID upd = NilObjectID then ID doc else ID upd),
         UserID := UserID upd, Title := Title upd, Description := Description upd,
         AllottedTo := AllottedTo upd, DoneBy := DoneBy upd, Status := Status upd,
         StartDate := StartDate upd, EndDate := EndDate upd\<rparr>"

text \<open>
  \<open>UpdateOne\<close> changes the first document the filter accepts and reports
  \<open>MatchedCount\<close>. The server refuses an update that would give \<open>_id\<close> another value.
\<close>

fun update_first :: "(Task \<Rightarrow> bool) \<Rightarrow> Task \<Rightarrow> Task list \<Rightarrow> mongo_error + (nat \<times> Task list)" where
  "update_first flt upd [] = Inr (0, [])"
| "update_first flt upd (d # ds) =
     (if flt d then
        (if ID upd \<noteq> NilObjectID \<and> ID upd \<noteq> ID d then Inl ImmutableField
         else Inr (1, set_fields upd d # ds))
      else case update_first flt upd ds of
             Inl e \<Rightarrow> Inl e
           | Inr (n, ds') \<Rightarrow> Inr (n, d # ds'))"

definition UpdateOne ::
  "bool \<Rightarrow> (Task \<Rightarrow> bool) \<Rightarrow> Task \<Rightarrow> Task list \<Rightarrow> mongo_error + (nat \<times> Task list)" where
  "UpdateOne fails flt upd coll = (if fails then Inl DriverError else update_first flt upd coll)"

text \<open>\<open>DeleteOne\<close> removes the first document the filter accepts and reports
  \<open>DeletedCount\<close>.\<close>

fun delete_first :: "('d \<Rightarrow> bool) \<Rightarrow> 'd list \<Rightarrow> nat \<times> 'd list" where
  "delete_first flt [] = (0, [])"
| "delete_first flt (d # ds) =
     (if flt d then (1, ds)
      else case delete_first flt ds of (n, ds') \<Rightarrow> (n, d # ds'))"

definition DeleteOne :: "bool \<Rightarrow> ('d \<Rightarrow> bool) \<Rightarrow> 'd list \<Rightarrow> mongo_error + (nat \<times> 'd list)" where
  "DeleteOne fails flt coll = (if fails then Inl DriverError else Inr (delete_first flt coll))"

section \<open>Password hashing (utils.go)\<close>

text \<open>
  \<open>bcrypt.GenerateFromPassword\<close> draws a random salt and can fail;
  \<open>bcrypt.CompareHashAndPassword\<close> returns an error unless the password matches the
  hash. Both belong to a library outside the repository and are parameters here: \<open>gen\<close>
  returns the hash or an error, \<open>cmp\<close> returns the error, if any.
  \<open>HashPassword\<close> drops the error of the generation: the byte slice is then \<open>nil\<close> and
  the result is the empty string.
\<close>

type_synonym GenerateFromPassword = "string \<Rightarrow> nat \<Rightarrow> string + string"
type_synonym CompareHashAndPassword = "string \<Rightarrow> string \<Rightarrow> string option"

definition HashPassword :: "GenerateFromPassword \<Rightarrow> string \<Rightarrow> string" where
  "HashPassword gen password = (case gen password 14 of Inl err \<Rightarrow> [] | Inr hashedPassword \<Rightarrow> hashedPassword)"

definition CheckPasswordHash :: "CompareHashAndPassword \<Rightarrow> string \<Rightarrow> string \<Rightarrow> bool" where
  "CheckPasswordHash cmp password hash = (cmp hash password = None)"

section \<open>Tokens (the calls into golang-jwt/jwt/v4)\<close>

text \<open>
  A claim value is a JSON value: a string, a number (whole numbers only are modelled)
  or anything else. \<open>jwt.MapClaims\<close> maps claim names to values.
\<close>

datatype jvalue = JString string | JNumber int | JOther

type_synonym MapClaims = "string \<Rightarrow> jvalue option"

datatype SigningMethod = HS256 | HS384 | HS512 | NotHMAC string

text \<open>
  The text of a token, as it stands in the \<open>Authorization\<close> header. \<open>Compact m c s\<close> is
  a string of three base64url segments that decode to a header naming the signing method
  \<open>m\<close>, the claims \<open>c\<close> and the signature \<open>s\<close>; \<open>Text s\<close> is any other string, the
  empty string when the header is missing.
\<close>

datatype TokenString = Text string | Compact SigningMethod MapClaims string

record Token =
  Method :: SigningMethod
  Claims :: MapClaims
  Signature :: string
  Valid :: bool

text \<open>
  The message authentication code is a parameter: \<open>sign m key c\<close> is the signature of
  the signing input that the method \<open>m\<close> and the claims \<open>c\<close> determine, under \<open>key\<close>.
\<close>

type_synonym Signer = "SigningMethod \<Rightarrow> string \<Rightarrow> MapClaims \<Rightarrow> string"

definition is_SigningMethodHMAC :: "SigningMethod \<Rightarrow> bool" where
  "is_SigningMethodHMAC m = (case m of NotHMAC n \<Rightarrow> False | _ \<Rightarrow> True)"

text \<open>\<open>jwt.NewWithClaims(method, claims).SignedString(key)\<close>: an HMAC method accepts
  every byte-slice key; another method refuses it.\<close>

definition SignedString :: "Signer \<Rightarrow> SigningMethod \<Rightarrow> MapClaims \<Rightarrow> string \<Rightarrow> string + TokenString" where
  "SignedString sign m claims key =
     (if is_SigningMethodHMAC m then Inr (Compact m claims (sign m key claims))
      else Inl ''key is of invalid type'')"

datatype ValidationError =
  Malformed | Unverifiable | SignatureInvalid | Expired | IssuedAt | NotValidYet

text \<open>
  \<open>MapClaims.Valid\<close> of jwt/v4 compares three claims with the current Unix time \<open>cmp\<close>
  (whole seconds). A claim that is absent, or the number zero, counts as unset and passes
  when it is not required; a claim that is not a number fails. The token is expired unless
  \<open>cmp\<close> is before \<open>exp\<close>; \<open>iat\<close> and \<open>nbf\<close> must not be after \<open>cmp\<close>.
\<close>

definition VerifyExpiresAt :: "MapClaims \<Rightarrow> int \<Rightarrow> bool \<Rightarrow> bool" where
  "VerifyExpiresAt m cmp req =
     (case m ''exp'' of
        None \<Rightarrow> \<not> req
      | Some (JNumber exp) \<Rightarrow> (if exp = 0 then \<not> req else cmp < exp)
      | Some _ \<Rightarrow> False)"

definition VerifyIssuedAt :: "MapClaims \<Rightarrow> int \<Rightarrow> bool \<Rightarrow> bool" where
  "VerifyIssuedAt m cmp req =
     (case m ''iat'' of
        None \<Rightarrow> \<not> req
      | Some (JNumber iat) \<Rightarrow> (if iat = 0 then \<not> req else iat \<le> cmp)
      | Some _ \<Rightarrow> False)"

definition VerifyNotBefore :: "MapClaims \<Rightarrow> int \<Rightarrow> bool \<Rightarrow> bool" where
  "VerifyNotBefore m cmp req =
     (case m ''nbf'' of
        None \<Rightarrow> \<not> req
      | Some (JNumber nbf) \<Rightarrow> (if nbf = 0 then \<not> req else nbf \<le> cmp)
      | Some _ \<Rightarrow> False)"

definition MapClaims_Valid :: "int \<Rightarrow> MapClaims \<Rightarrow> ValidationError list" where
  "MapClaims_Valid now m =
     (if VerifyExpiresAt m now False then [] else [Expired]) @
     (if VerifyIssuedAt m now False then [] else [IssuedAt]) @
     (if VerifyNotBefore m now False then [] else [NotValidYet])"

text \<open>
  \<open>jwt.Parse(tokenString, keyFunc)\<close> at the time \<open>now\<close>: a string that is not three
  decodable segments is malformed; an error of \<open>keyFunc\<close> makes the token unverifiable;
  then the claims and the signature are checked and all their errors collected. Only a
  token with no error is returned, marked valid.
\<close>

definition Parse ::
  "Signer \<Rightarrow> (SigningMethod \<Rightarrow> string + string) \<Rightarrow> Time \<Rightarrow> TokenString \<Rightarrow> ValidationError list + Token" where
  "Parse sign keyFunc now tokenString =
     (case tokenString of
        Text s \<Rightarrow> Inl [Malformed]
      | Compact m claims sig \<Rightarrow>
          (case keyFunc m of
             Inl err \<Rightarrow> Inl [Unverifiable]
           | Inr key \<Rightarrow>
               (let vErr = MapClaims_Valid (Unix now) claims @
                           (if sig = sign m key claims then [] else [SignatureInvalid])
                in if vErr = []
                   then Inr \<lparr>Method = m, Claims = claims, Signature = sig, Valid = True\<rparr>
                   else Inl vErr)))"

section \<open>Replies\<close>

text \<open>
  What a handler sends: a status and a JSON body. \<open>Panic\<close> is a failed type assertion
  (the recover middleware of main.go turns it into an error reply).
\<close>

datatype Body =
  ErrorJSON string | MessageJSON string | TokenJSON TokenString
  | UserJSON User | TaskJSON Task | TasksJSON "Task list" | NoBody

datatype Reply = Panic | Reply nat Body

abbreviation StatusOK :: nat where "StatusOK \<equiv> 200"
abbreviation StatusCreated :: nat where "StatusCreated \<equiv> 201"
abbreviation StatusNoContent :: nat where "StatusNoContent \<equiv> 204"
abbreviation StatusBadRequest :: nat where "StatusBadRequest \<equiv> 400"
abbreviation StatusUnauthorized :: nat where "StatusUnauthorized \<equiv> 401"
abbreviation StatusNotFound :: nat where "StatusNotFound \<equiv> 404"
abbreviation StatusInternalServerError :: nat where "StatusInternalServerError \<equiv> 500"

text \<open>
  What one request finds around it: the clock, the value \<open>primitive.NewObjectID()\<close>
  returns, the identifier the driver generates for a document written without one, and
  whether the driver's read and write calls fail.
\<close>

record Env =
  Now :: Time
  NewObjectID :: ObjectID
  GeneratedID :: ObjectID
  ReadFails :: bool
  WriteFails :: bool

section \<open>The authorization gate (utils.go, middleware.go)\<close>

text \<open>A gate either answers the request itself or passes it on with the value it stored
  under \<open>c.Locals("userId")\<close>.\<close>

datatype Gate = Halt Reply | Next "jvalue option"

definition keyFunc :: "string \<Rightarrow> SigningMethod \<Rightarrow> string + string" where
  "keyFunc secret m =
     (if \<not> is_SigningMethodHMAC m then Inl ''unexpected signing method'' else Inr secret)"

definition JWTMiddleware :: "Signer \<Rightarrow> string \<Rightarrow> Env \<Rightarrow> TokenString \<Rightarrow> Gate" where
  "JWTMiddleware sign secret env tokenString =
     (if tokenString = Text [] then
        Halt (Reply StatusUnauthorized (ErrorJSON ''missing or malformed JWT''))
      else case Parse sign (keyFunc secret) (Now env) tokenString of
             Inl err \<Rightarrow> Halt (Reply StatusUnauthorized (ErrorJSON ''invalid JWT''))
           | Inr token \<Rightarrow>
               (if Valid token then Next (Claims token ''userId'')
                else Halt (Reply StatusUnauthorized (ErrorJSON ''invalid JWT''))))"

text \<open>
  The two callbacks of \<open>middleware.Protected\<close>. \<open>SuccessHandler\<close> receives the token
  the library validated and asserts that its \<open>userId\<close> claim is a string.
\<close>

definition SuccessHandler :: "Token \<Rightarrow> Gate" where
  "SuccessHandler user =
     (case Claims user ''userId'' of
        Some (JString userId) \<Rightarrow> Next (Some (JString userId))
      | _ \<Rightarrow> Halt Panic)"

definition ErrorHandler :: "ValidationError list option \<Rightarrow> jvalue option \<Rightarrow> Gate" where
  "ErrorHandler err locals =
     (if err \<noteq> None then Halt (Reply StatusUnauthorized (ErrorJSON ''unauthorized''))
      else Next locals)"

text \<open>The type assertion \<open>c.Locals("userId").(string)\<close> every task handler starts with.\<close>

definition assert_string :: "jvalue option \<Rightarrow> string option" where
  "assert_string v = (case v of Some (JString s) \<Rightarrow> Some s | _ \<Rightarrow> None)"

section \<open>Identity handlers (users.go)\<close>

text \<open>
  A handler takes the request's environment, the store, and what \<open>c.BodyParser\<close> makes
  of the body: \<open>None\<close> when it returns an error, the filled struct otherwise (fields the
  body leaves out keep their zero value). It returns the reply and the store afterwards.
\<close>

definition SignUp :: "GenerateFromPassword \<Rightarrow> Env \<Rightarrow> DB \<Rightarrow> User option \<Rightarrow> Reply \<times> DB" where
  "SignUp gen env db body =
     (case body of
        None \<Rightarrow> (Reply StatusBadRequest (ErrorJSON ''cannot parse JSON''), db)
      | Some user \<Rightarrow>
          (case Decode (FindOne (ReadFails env) (username_is (Username user)) (UsersCollection db))
                  zero_User of
             (existingUser, err) \<Rightarrow>
               if err \<noteq> None \<and> err \<noteq> Some ErrNoDocuments then
                 (Reply StatusInternalServerError (ErrorJSON ''internal server error''), db)
               else if Username existingUser \<noteq> [] then
                 (Reply StatusBadRequest (ErrorJSON ''username already taken''), db)
               else
                 (let user = user\<lparr>Password := HashPassword gen (Password user)\<rparr>
                  in case InsertOne_User (WriteFails env) (GeneratedID env) user (UsersCollection db) of
                       Inl err \<Rightarrow>
                         (Reply StatusInternalServerError (ErrorJSON ''could not create user''), db)
                     | Inr (InsertedID, users) \<Rightarrow>
                         (Reply StatusCreated (UserJSON (user\<lparr>User.ID := InsertedID\<rparr>)),
                          db\<lparr>UsersCollection := users\<rparr>))))"

definition SignIn ::
  "Signer \<Rightarrow> CompareHashAndPassword \<Rightarrow> string \<Rightarrow> int \<Rightarrow> Env \<Rightarrow> DB \<Rightarrow> User option \<Rightarrow> Reply" where
  "SignIn sign cmp jwtSecret tokenExpiryTime env db body =
     (case body of
        None \<Rightarrow> Reply StatusBadRequest (ErrorJSON ''cannot parse JSON'')
      | Some user \<Rightarrow>
          if Username user = [] \<or> Password user = [] then
            Reply StatusBadRequest (ErrorJSON ''username and password should not be blank!'')
          else
            (case FindOne (ReadFails env) (username_is (Username user)) (UsersCollection db) of
               Inl err \<Rightarrow>
                 (if err = ErrNoDocuments then
                    Reply StatusUnauthorized (ErrorJSON ''invalid credentials'')
                  else Reply StatusInternalServerError (ErrorJSON ''internal server error''))
             | Inr foundUser \<Rightarrow>
                 if \<not> CheckPasswordHash cmp (Password user) (Password foundUser) then
                   Reply StatusUnauthorized (ErrorJSON ''invalid credentials'')
                 else
                   (let claims = [''userId'' \<mapsto> JString (Hex (User.ID foundUser)),
                                  ''exp'' \<mapsto> JNumber (Unix (Now env + Seconds tokenExpiryTime))]
                    in case SignedString sign HS256 claims jwtSecret of
                         Inl err \<Rightarrow>
                           Reply StatusInternalServerError (ErrorJSON ''could not generate token'')
                       | Inr tokenString \<Rightarrow> Reply StatusOK (TokenJSON tokenString))))"

definition SignOut :: Reply where
  "SignOut = Reply StatusOK (MessageJSON ''signed out'')"

section \<open>Task handlers (tasks.go)\<close>

text \<open>A task handler also takes the value under \<open>c.Locals("userId")\<close> and, where the
  route has one, the path parameter \<open>id\<close>.\<close>

definition CreateTask :: "Env \<Rightarrow> DB \<Rightarrow> jvalue option \<Rightarrow> Task option \<Rightarrow> Reply \<times> DB" where
  "CreateTask env db locals body =
     (case assert_string locals of
        None \<Rightarrow> (Panic, db)
      | Some userId \<Rightarrow>
          (case body of
             None \<Rightarrow> (Reply StatusBadRequest (ErrorJSON ''Cannot parse JSON''), db)
           | Some task \<Rightarrow>
               (case FindOne (ReadFails env) (username_is (AllottedTo task)) (UsersCollection db) of
                  Inl err \<Rightarrow>
                    (if err = ErrNoDocuments then
                       (Reply StatusBadRequest (ErrorJSON ''Allotted user does not exist''), db)
                     else
                       (Reply StatusInternalServerError (ErrorJSON ''Error checking allotted user''), db))
                | Inr user \<Rightarrow>
                    (let task = task\<lparr>ID := NewObjectID env,
                                      UserID := fst (ObjectIDFromHex userId),
                                      StartDate := NewDateTimeFromTime (Now env),
                                      Status := ''Pending''\<rparr>
                     in case InsertOne_Task (WriteFails env) (GeneratedID env) task (TasksCollection db) of
                          Inl err \<Rightarrow>
                            (Reply StatusInternalServerError (ErrorJSON ''Could not create task''), db)
                        | Inr (InsertedID, tasks) \<Rightarrow>
                            (Reply StatusCreated (TaskJSON task), db\<lparr>TasksCollection := tasks\<rparr>)))))"

definition GetTasks :: "Env \<Rightarrow> DB \<Rightarrow> jvalue option \<Rightarrow> Reply" where
  "GetTasks env db locals =
     (case assert_string locals of
        None \<Rightarrow> Panic
      | Some userId \<Rightarrow>
          (case ObjectIDFromHex userId of
             (userObjectId, Some err) \<Rightarrow>
               Reply StatusInternalServerError (ErrorJSON ''Invalid user ID'')
           | (userObjectId, None) \<Rightarrow>
               (case Find (ReadFails env) (owner_is userObjectId) (TasksCollection db) of
                  Inl err \<Rightarrow>
                    (if err = ErrNoDocuments then Reply StatusNotFound (ErrorJSON ''No tasks found'')
                     else Reply StatusInternalServerError (ErrorJSON ''Error fetching tasks''))
                | Inr tasks \<Rightarrow> Reply StatusOK (TasksJSON tasks))))"

definition GetTask :: "Env \<Rightarrow> DB \<Rightarrow> jvalue option \<Rightarrow> string \<Rightarrow> Reply" where
  "GetTask env db locals taskId =
     (case assert_string locals of
        None \<Rightarrow> Panic
      | Some userId \<Rightarrow>
          (case ObjectIDFromHex taskId of
             (taskIdHex, Some err) \<Rightarrow> Reply StatusBadRequest (ErrorJSON ''Invalid task ID'')
           | (taskIdHex, None) \<Rightarrow>
               (let userIdHex = fst (ObjectIDFromHex userId)
                in case FindOne (ReadFails env) (id_and_owner_are taskIdHex userIdHex)
                          (TasksCollection db) of
                     Inl err \<Rightarrow> Reply StatusNotFound (ErrorJSON ''Task not found'')
                   | Inr task \<Rightarrow> Reply StatusOK (TaskJSON task))))"

definition UpdateTask :: "Env \<Rightarrow> DB \<Rightarrow> jvalue option \<Rightarrow> string \<Rightarrow> Task option \<Rightarrow> Reply \<times> DB" where
  "UpdateTask env db locals taskId body =
     (case assert_string locals of
        None \<Rightarrow> (Panic, db)
      | Some userId \<Rightarrow>
          (case ObjectIDFromHex taskId of
             (taskIdHex, Some err) \<Rightarrow> (Reply StatusBadRequest (ErrorJSON ''Invalid task ID''), db)
           | (taskIdHex, None) \<Rightarrow>
               (let userIdHex = fst (ObjectIDFromHex userId)
                in case body of
                     None \<Rightarrow> (Reply StatusBadRequest (ErrorJSON ''Cannot parse JSON''), db)
                   | Some task \<Rightarrow>
                       (let task = task\<lparr>UserID := userIdHex, ID := taskIdHex\<rparr>
                        in case UpdateOne (WriteFails env) (id_and_owner_are taskIdHex userIdHex) task
                                  (TasksCollection db) of
                             Inl err \<Rightarrow>
                               (Reply StatusInternalServerError (ErrorJSON ''Could not update task''), db)
                           | Inr (MatchedCount, tasks) \<Rightarrow>
                               if MatchedCount = 0 then
                                 (Reply StatusNotFound (ErrorJSON ''Task not found''),
                                  db\<lparr>TasksCollection := tasks\<rparr>)
                               else (Reply StatusOK (TaskJSON task), db\<lparr>TasksCollection := tasks\<rparr>)))))"

definition DeleteTask :: "Env \<Rightarrow> DB \<Rightarrow> jvalue option \<Rightarrow> string \<Rightarrow> Reply \<times> DB" where
  "DeleteTask env db locals taskId =
     (case assert_string locals of
        None \<Rightarrow> (Panic, db)
      | Some userId \<Rightarrow>
          (case ObjectIDFromHex taskId of
             (taskIdHex, Some err) \<Rightarrow> (Reply StatusBadRequest (ErrorJSON ''Invalid task ID''), db)
           | (taskIdHex, None) \<Rightarrow>
               (let userIdHex = fst (ObjectIDFromHex userId)
                in case DeleteOne (WriteFails env) (id_and_owner_are taskIdHex userIdHex)
                          (TasksCollection db) of
                     Inl err \<Rightarrow>
                       (Reply StatusInternalServerError (ErrorJSON ''Could not delete task''), db)
                   | Inr (DeletedCount, tasks) \<Rightarrow>
                       if DeletedCount = 0 then
                         (Reply StatusNotFound (ErrorJSON ''Task not found''),
                          db\<lparr>TasksCollection := tasks\<rparr>)
                       else (Reply StatusNoContent NoBody, db\<lparr>TasksCollection := tasks\<rparr>))))"

section \<open>Notions the properties are stated with\<close>

text \<open>The tasks of the store that belong to another owner than \<open>u\<close>, in order.\<close>

definition tasks_of_others :: "ObjectID \<Rightarrow> DB \<Rightarrow> Task list" where
  "tasks_of_others u db = filter (\<lambda>t. UserID t \<noteq> u) (TasksCollection db)"

section \<open>Sample data, after handlers_test.go\<close>

text \<open>
  A store with the user and the task the tests create, a second task that belongs to
  someone else, a request environment without driver failures, and the body of
  \<open>TestUpdateTask\<close> (here with an identifier and an owner of its own). The stand-ins for
  the two libraries sign with the key itself and hash by prefixing a dollar sign.
\<close>

definition testuser :: User where
  "testuser = \<lparr>User.ID = 2, Username = ''testuser'', Password = ''$testpassword''\<rparr>"

definition test_task :: Task where
  "test_task = \<lparr>ID = 1, UserID = 2, Title = ''Test Task'', Description = ''This is a test task'',
                 AllottedTo = ''testuser'', DoneBy = [], Status = ''Pending'',
                 StartDate = 1720000000000, EndDate = 0\<rparr>"

definition other_task :: Task where
  "other_task = \<lparr>ID = 4, UserID = 3, Title = ''Find Test Task'',
                  Description = ''This is a find test task'', AllottedTo = ''bipin'', DoneBy = [],
                  Status = ''Pending'', StartDate = 1720000000000, EndDate = 1720604800000\<rparr>"

definition test_db :: DB where
  "test_db = \<lparr>UsersCollection = [testuser], TasksCollection = [other_task, test_task]\<rparr>"

definition test_env :: Env where
  "test_env = \<lparr>Now = 1720000060000000000, NewObjectID = 17, GeneratedID = 18,
                ReadFails = False, WriteFails = False\<rparr>"

definition updated_task :: Task where
  "updated_task = \<lparr>ID = 7, UserID = 3, Title = ''Updated Test Task'',
                    Description = ''This is an updated test task'', AllottedTo = ''testupdatetask'',
                    DoneBy = [], Status = [], StartDate = 0, EndDate = 0\<rparr>"

definition test_sign :: Signer where
  "test_sign m key claims = key"

definition test_gen :: GenerateFromPassword where
  "test_gen password cost = Inr (CHR ''$'' # password)"

definition test_cmp :: CompareHashAndPassword where
  "test_cmp hash password =
     (if hash = CHR ''$'' # password then None else Some ''hashedPassword is not the hash of the given password'')"

section \<open>Well-formed identifier strings\<close>

text \<open>A string of exactly 24 hexadecimal characters, in either case.\<close>

definition well_formed_hex :: "string \<Rightarrow> bool" where
  "well_formed_hex s = (length s = 24 \<and> list_all (\<lambda>c. c \<in> set ''0123456789abcdefABCDEF'') s)"

section \<open>Round trip of the hexadecimal form\<close>

lemma length_hex_digits: "length (hex_digits k n) = k"
  by (induction k arbitrary: n) auto

lemma hex_digits_less: "d \<in> set (hex_digits k n) \<Longrightarrow> d < 16"
  by (induction k arbitrary: n) auto

lemma foldl_hex_digits: "foldl (\<lambda>a d. 16 * a + d) 0 (hex_digits k n) = n mod 16 ^ k"
proof (induction k arbitrary: n)
  case 0
  show ?case by simp
next
  case (Suc k)
  have "n mod (16 * 16 ^ k) = 16 * (n div 16 mod 16 ^ k) + n mod 16"
    by (simp add: mod_mult2_eq)
  with Suc show ?case by simp
qed

lemma fromHexChar_hextable_all: "\<forall>d \<in> set [0..<16]. fromHexChar (hextable ! d) = Some d"
  by code_simp

lemma fromHexChar_hextable: "d < 16 \<Longrightarrow> fromHexChar (hextable ! d) = Some d"
  using fromHexChar_hextable_all by simp

lemma decode_digits_hextable:
  "\<forall>d \<in> set ds. d < 16 \<Longrightarrow> decode_digits (map (\<lambda>d. hextable ! d) ds) = Some ds"
  by (induction ds) (auto simp: fromHexChar_hextable)

lemma length_Hex: "length (Hex oid) = 24"
  by (simp add: Hex_def length_hex_digits)

lemma ObjectIDFromHex_Hex: "ObjectIDFromHex (Hex oid) = (oid, None)"
proof -
  have "decode_digits (Hex oid) = Some (hex_digits 24 (unat oid))"
    unfolding Hex_def by (rule decode_digits_hextable) (auto dest: hex_digits_less)
  moreover have "unat oid mod 16 ^ 24 = unat oid"
    using unsigned_less [of oid, where 'a = nat] by simp
  ultimately show ?thesis
    by (simp add: ObjectIDFromHex_def length_Hex foldl_hex_digits)
qed

lemma fromHexChar_digits_all:
  "\<forall>c \<in> set ''0123456789abcdefABCDEF''. fromHexChar c \<noteq> None"
  by code_simp

lemma fromHexChar_Some_char:
  assumes "fromHexChar c \<noteq> None"
  shows "c \<in> set ''0123456789abcdefABCDEF''"
proof -
  let ?n = "of_char c :: nat"
  from assms consider "48 \<le> ?n \<and> ?n \<le> 57" | "97 \<le> ?n \<and> ?n \<le> 102" | "65 \<le> ?n \<and> ?n \<le> 70"
    by (auto simp: fromHexChar_def Let_def split: if_splits)
  then have "?n \<in> {48,49,50,51,52,53,54,55,56,57,97,98,99,100,101,102,65,66,67,68,69,70}"
    by cases (simp_all, arith+)
  then have "?n \<in> of_char ` set ''0123456789abcdefABCDEF''"
    by simp
  then show ?thesis
    by (simp only: inj_image_mem_iff [OF inj_of_char])
qed

lemma fromHexChar_iff: "fromHexChar c \<noteq> None \<longleftrightarrow> c \<in> set ''0123456789abcdefABCDEF''"
  using fromHexChar_digits_all fromHexChar_Some_char by blast

lemma decode_digits_None_iff:
  "decode_digits s = None \<longleftrightarrow> (\<exists>c \<in> set s. fromHexChar c = None)"
  by (induction s) (auto split: option.splits)

lemma ObjectIDFromHex_error_iff:
  "snd (ObjectIDFromHex s) \<noteq> None \<longleftrightarrow> \<not> well_formed_hex s"
proof -
  have "list_all (\<lambda>c. c \<in> set ''0123456789abcdefABCDEF'') s \<longleftrightarrow> decode_digits s \<noteq> None"
    unfolding decode_digits_None_iff list_all_iff using fromHexChar_iff by blast
  then show ?thesis
    by (auto simp: ObjectIDFromHex_def well_formed_hex_def split: option.splits)
qed

lemma ObjectIDFromHex_error_Nil:
  "snd (ObjectIDFromHex s) \<noteq> None \<Longrightarrow> fst (ObjectIDFromHex s) = NilObjectID"
  by (auto simp: ObjectIDFromHex_def split: option.splits if_splits)

section \<open>The store primitives\<close>

lemma assert_string_JString: "assert_string (Some (JString s)) = Some s"
  by (simp add: assert_string_def)

lemma FindOne_no_match:
  "\<forall>d \<in> set coll. \<not> flt d \<Longrightarrow> FindOne fails flt coll = Inl (if fails then DriverError else ErrNoDocuments)"
  by (simp add: FindOne_def find_None_iff[THEN iffD2])

lemma FindOne_found:
  "FindOne fails flt coll = Inr d \<Longrightarrow> d \<in> set coll \<and> flt d"
  by (auto simp: FindOne_def find_Some_iff split: if_splits option.splits)

lemma update_first_no_match:
  "\<forall>d \<in> set ds. \<not> flt d \<Longrightarrow> update_first flt upd ds = Inr (0, ds)"
  by (induction ds) auto

lemma delete_first_no_match:
  "\<forall>d \<in> set ds. \<not> flt d \<Longrightarrow> delete_first flt ds = (0, ds)"
  by (induction ds) auto

lemma update_first_others:
  "update_first (id_and_owner_are tid u) upd ds = Inr (n, ds') \<Longrightarrow> UserID upd = u \<Longrightarrow>
   filter (\<lambda>t. UserID t \<noteq> u) ds' = filter (\<lambda>t. UserID t \<noteq> u) ds"
proof (induction ds arbitrary: n ds')
  case Nil
  then show ?case by simp
next
  case (Cons d ds)
  show ?case
  proof (cases "id_and_owner_are tid u d")
    case True
    with Cons.prems show ?thesis
      by (auto simp: id_and_owner_are_def set_fields_def split: if_splits)
  next
    case False
    with Cons.prems obtain m es where r: "update_first (id_and_owner_are tid u) upd ds = Inr (m, es)"
      and e: "ds' = d # es"
      by (auto split: sum.splits prod.splits)
    from Cons.IH [OF r Cons.prems(2)] e show ?thesis by simp
  qed
qed

lemma delete_first_others:
  "delete_first (id_and_owner_are tid u) ds = (n, ds') \<Longrightarrow>
   filter (\<lambda>t. UserID t \<noteq> u) ds' = filter (\<lambda>t. UserID t \<noteq> u) ds"
proof (induction ds arbitrary: n ds')
  case Nil
  then show ?case by simp
next
  case (Cons d ds)
  show ?case
  proof (cases "id_and_owner_are tid u d")
    case True
    with Cons.prems show ?thesis
      by (auto simp: id_and_owner_are_def)
  next
    case False
    with Cons.prems obtain m es where r: "delete_first (id_and_owner_are tid u) ds = (m, es)"
      and e: "ds' = d # es"
      by (auto split: prod.splits)
    from Cons.IH [OF r] e show ?thesis by simp
  qed
qed

lemma GetTask_found:
  assumes "GetTask env db (Some (JString userId)) taskId = Reply StatusOK (TaskJSON t)"
  shows "t \<in> set (TasksCollection db) \<and> ID t = fst (ObjectIDFromHex taskId)
         \<and> UserID t = fst (ObjectIDFromHex userId) \<and> snd (ObjectIDFromHex taskId) = None"
  using assms
  by (auto simp: GetTask_def assert_string_def id_and_owner_are_def Let_def
           split: prod.splits option.splits sum.splits dest!: FindOne_found)

lemma UpdateTask_others:
  assumes "UpdateTask env db (Some (JString userId)) taskId body = (r, db')"
  shows "tasks_of_others (fst (ObjectIDFromHex userId)) db' = tasks_of_others (fst (ObjectIDFromHex userId)) db
         \<and> UsersCollection db' = UsersCollection db"
  using assms
  by (auto simp: UpdateTask_def assert_string_def Let_def UpdateOne_def tasks_of_others_def
           split: prod.splits option.splits sum.splits if_splits dest!: update_first_others)

lemma DeleteTask_others:
  assumes "DeleteTask env db (Some (JString userId)) taskId = (r, db')"
  shows "tasks_of_others (fst (ObjectIDFromHex userId)) db' = tasks_of_others (fst (ObjectIDFromHex userId)) db
         \<and> UsersCollection db' = UsersCollection db"
  using assms
  by (auto simp: DeleteTask_def assert_string_def Let_def DeleteOne_def tasks_of_others_def
           split: prod.splits option.splits sum.splits if_splits dest!: delete_first_others)

lemma GetTask_no_match:
  assumes "\<forall>t \<in> set (TasksCollection db). \<not> (ID t = tid \<and> UserID t = fst (ObjectIDFromHex userId))"
    and "ObjectIDFromHex taskId = (tid, None)"
  shows "GetTask env db (Some (JString userId)) taskId = Reply StatusNotFound (ErrorJSON ''Task not found'')"
proof -
  have "\<forall>t \<in> set (TasksCollection db). \<not> id_and_owner_are tid (fst (ObjectIDFromHex userId)) t"
    using assms(1) by (simp add: id_and_owner_are_def)
  from FindOne_no_match [OF this] show ?thesis
    by (simp add: GetTask_def assert_string_def assms(2))
qed

lemma UpdateTask_no_match:
  assumes "\<forall>t \<in> set (TasksCollection db). \<not> (ID t = tid \<and> UserID t = fst (ObjectIDFromHex userId))"
    and "ObjectIDFromHex taskId = (tid, None)" and "\<not> WriteFails env"
  shows "UpdateTask env db (Some (JString userId)) taskId (Some task)
         = (Reply StatusNotFound (ErrorJSON ''Task not found''), db)"
proof -
  have "\<forall>t \<in> set (TasksCollection db). \<not> id_and_owner_are tid (fst (ObjectIDFromHex userId)) t"
    using assms(1) by (simp add: id_and_owner_are_def)
  from update_first_no_match [OF this] show ?thesis
    by (simp add: UpdateTask_def assert_string_def assms(2,3) UpdateOne_def)
qed

lemma DeleteTask_no_match:
  assumes "\<forall>t \<in> set (TasksCollection db). \<not> (ID t = tid \<and> UserID t = fst (ObjectIDFromHex userId))"
    and "ObjectIDFromHex taskId = (tid, None)" and "\<not> WriteFails env"
  shows "DeleteTask env db (Some (JString userId)) taskId
         = (Reply StatusNotFound (ErrorJSON ''Task not found''), db)"
proof -
  have "\<forall>t \<in> set (TasksCollection db). \<not> id_and_owner_are tid (fst (ObjectIDFromHex userId)) t"
    using assms(1) by (simp add: id_and_owner_are_def)
  from delete_first_no_match [OF this] show ?thesis
    by (simp add: DeleteTask_def assert_string_def assms(2,3) DeleteOne_def)
qed

lemma UpdateTask_no_match_store:
  assumes "\<forall>t \<in> set (TasksCollection db). \<not> (ID t = fst (ObjectIDFromHex taskId) \<and> UserID t = fst (ObjectIDFromHex userId))"
  shows "snd (UpdateTask env db (Some (JString userId)) taskId body) = db"
proof -
  have "\<forall>t \<in> set (TasksCollection db).
          \<not> id_and_owner_are (fst (ObjectIDFromHex taskId)) (fst (ObjectIDFromHex userId)) t"
    using assms by (simp add: id_and_owner_are_def)
  from update_first_no_match [OF this] show ?thesis
    by (auto simp: UpdateTask_def assert_string_def UpdateOne_def Let_def
             split: prod.splits option.splits)
qed

lemma DeleteTask_no_match_store:
  assumes "\<forall>t \<in> set (TasksCollection db). \<not> (ID t = fst (ObjectIDFromHex taskId) \<and> UserID t = fst (ObjectIDFromHex userId))"
  shows "snd (DeleteTask env db (Some (JString userId)) taskId) = db"
proof -
  have "\<forall>t \<in> set (TasksCollection db).
          \<not> id_and_owner_are (fst (ObjectIDFromHex taskId)) (fst (ObjectIDFromHex userId)) t"
    using assms by (simp add: id_and_owner_are_def)
  from delete_first_no_match [OF this] show ?thesis
    by (auto simp: DeleteTask_def assert_string_def DeleteOne_def Let_def
             split: prod.splits option.splits)
qed

lemma set_fields_same: "ID doc = ID upd \<Longrightarrow> set_fields upd doc = upd"
  by (cases upd, cases doc) (simp add: set_fields_def)

lemma update_first_match:
  assumes "update_first (id_and_owner_are tid u) upd ds = Inr (n, ds')" and "n \<noteq> 0"
    and "ID upd = tid"
  shows "\<exists>pre old post. ds = pre @ old # post \<and> ID old = tid \<and> UserID old = u
           \<and> (\<forall>t \<in> set pre. \<not> (ID t = tid \<and> UserID t = u)) \<and> ds' = pre @ upd # post"
  using assms(1,2)
proof (induction ds arbitrary: n ds')
  case Nil
  then show ?case by simp
next
  case (Cons d ds)
  show ?case
  proof (cases "id_and_owner_are tid u d")
    case True
    then have "ID d = ID upd" and own: "UserID d = u" and idd: "ID d = tid"
      using assms(3) by (simp_all add: id_and_owner_are_def)
    then have "set_fields upd d = upd" by (simp add: set_fields_same)
    with True Cons.prems idd assms(3) have "ds' = [] @ upd # ds"
      by (auto split: if_splits)
    with idd own show ?thesis by fastforce
  next
    case False
    with Cons.prems obtain es where r: "update_first (id_and_owner_are tid u) upd ds = Inr (n, es)"
      and e: "ds' = d # es"
      by (auto split: sum.splits prod.splits)
    from Cons.IH [OF r Cons.prems(2)] obtain pre old post where
      p: "ds = pre @ old # post" "ID old = tid" "UserID old = u"
         "\<forall>t \<in> set pre. \<not> (ID t = tid \<and> UserID t = u)" "es = pre @ upd # post"
      by blast
    have "d # ds = (d # pre) @ old # post" using p(1) by simp
    moreover have "ds' = (d # pre) @ upd # post" using p(5) e by simp
    moreover have "\<forall>t \<in> set (d # pre). \<not> (ID t = tid \<and> UserID t = u)"
      using p(4) False by (simp add: id_and_owner_are_def)
    ultimately show ?thesis using p(2,3) by blast
  qed
qed

section \<open>Ownership of tasks\<close>

text \<open>
  Claim C1. For an authenticated user identifier \<open>U\<close> and a task identifier \<open>T\<close>
  (both given in their hexadecimal form, as the token and the path carry them), \<open>GetTask\<close>,
  \<open>UpdateTask\<close> and \<open>DeleteTask\<close> query the store with the filter that requires the
  task's identifier to be \<open>T\<close> and its owner to be \<open>U\<close>: a task that \<open>GetTask\<close>
  returns satisfies both, and the tasks of every other owner are the same after
  \<open>UpdateTask\<close> and \<open>DeleteTask\<close> as before. When no stored task satisfies both,
  \<open>GetTask\<close> replies 404, \<open>UpdateTask\<close> and \<open>DeleteTask\<close> leave the store as it
  was, and they reply 404 whenever the request reaches the query (the body parses and the
  driver call does not fail).
\<close>

theorem owner_scoped_task_access:
  fixes U T :: ObjectID
  shows
  "(\<forall>t. GetTask env db (Some (JString (Hex U))) (Hex T) = Reply StatusOK (TaskJSON t)
        \<longrightarrow> t \<in> set (TasksCollection db) \<and> ID t = T \<and> UserID t = U)
   \<and> tasks_of_others U (snd (UpdateTask env db (Some (JString (Hex U))) (Hex T) body))
       = tasks_of_others U db
   \<and> tasks_of_others U (snd (DeleteTask env db (Some (JString (Hex U))) (Hex T)))
       = tasks_of_others U db
   \<and> ((\<forall>t \<in> set (TasksCollection db). \<not> (ID t = T \<and> UserID t = U)) \<longrightarrow>
        GetTask env db (Some (JString (Hex U))) (Hex T)
          = Reply StatusNotFound (ErrorJSON ''Task not found'')
      \<and> snd (UpdateTask env db (Some (JString (Hex U))) (Hex T) body) = db
      \<and> snd (DeleteTask env db (Some (JString (Hex U))) (Hex T)) = db
      \<and> (\<not> WriteFails env \<longrightarrow>
            UpdateTask env db (Some (JString (Hex U))) (Hex T) (Some task)
              = (Reply StatusNotFound (ErrorJSON ''Task not found''), db)
          \<and> DeleteTask env db (Some (JString (Hex U))) (Hex T)
              = (Reply StatusNotFound (ErrorJSON ''Task not found''), db)))"
proof -
  have U: "fst (ObjectIDFromHex (Hex U)) = U" and T: "ObjectIDFromHex (Hex T) = (T, None)"
    by (simp_all add: ObjectIDFromHex_Hex)
  have get: "\<forall>t. GetTask env db (Some (JString (Hex U))) (Hex T) = Reply StatusOK (TaskJSON t)
        \<longrightarrow> t \<in> set (TasksCollection db) \<and> ID t = T \<and> UserID t = U"
    using GetTask_found [of env db "Hex U" "Hex T"] by (simp add: U T)
  have upd: "tasks_of_others U (snd (UpdateTask env db (Some (JString (Hex U))) (Hex T) body))
       = tasks_of_others U db"
    using UpdateTask_others [of env db "Hex U" "Hex T" body] by (simp add: U prod_eq_iff)
  have del: "tasks_of_others U (snd (DeleteTask env db (Some (JString (Hex U))) (Hex T)))
       = tasks_of_others U db"
    using DeleteTask_others [of env db "Hex U" "Hex T"] by (simp add: U prod_eq_iff)
  have none: "GetTask env db (Some (JString (Hex U))) (Hex T)
          = Reply StatusNotFound (ErrorJSON ''Task not found'')
      \<and> snd (UpdateTask env db (Some (JString (Hex U))) (Hex T) body) = db
      \<and> snd (DeleteTask env db (Some (JString (Hex U))) (Hex T)) = db
      \<and> (\<not> WriteFails env \<longrightarrow>
            UpdateTask env db (Some (JString (Hex U))) (Hex T) (Some task)
              = (Reply StatusNotFound (ErrorJSON ''Task not found''), db)
          \<and> DeleteTask env db (Some (JString (Hex U))) (Hex T)
              = (Reply StatusNotFound (ErrorJSON ''Task not found''), db))"
    if nomatch: "\<forall>t \<in> set (TasksCollection db). \<not> (ID t = T \<and> UserID t = U)"
  proof -
    have n1: "\<forall>t \<in> set (TasksCollection db). \<not> (ID t = T \<and> UserID t = fst (ObjectIDFromHex (Hex U)))"
      using nomatch by (simp add: U)
    have n2: "\<forall>t \<in> set (TasksCollection db).
        \<not> (ID t = fst (ObjectIDFromHex (Hex T)) \<and> UserID t = fst (ObjectIDFromHex (Hex U)))"
      using nomatch by (simp add: U T)
    show ?thesis
      using GetTask_no_match [OF n1 T] UpdateTask_no_match_store [OF n2]
        DeleteTask_no_match_store [OF n2] UpdateTask_no_match [OF n1 T] DeleteTask_no_match [OF n1 T]
      by simp
  qed
  from get upd del none show ?thesis by blast
qed

theorem owner_scoped_task_access_witness:
  "GetTask test_env test_db (Some (JString (Hex 2))) (Hex 4)
     = Reply StatusNotFound (ErrorJSON ''Task not found'')
   \<and> UpdateTask test_env test_db (Some (JString (Hex 2))) (Hex 4) (Some updated_task)
     = (Reply StatusNotFound (ErrorJSON ''Task not found''), test_db)
   \<and> DeleteTask test_env test_db (Some (JString (Hex 2))) (Hex 4)
     = (Reply StatusNotFound (ErrorJSON ''Task not found''), test_db)
   \<and> tasks_of_others 3 (snd (DeleteTask test_env test_db (Some (JString (Hex 3))) (Hex 4))) = [test_task]"
  using owner_scoped_task_access [of test_env test_db 2 4 "Some updated_task" updated_task]
    owner_scoped_task_access [of test_env test_db 3 4 "Some updated_task" updated_task]
  by (simp add: test_env_def test_db_def test_task_def other_task_def tasks_of_others_def)

text \<open>
  Claim C2. When \<open>UpdateTask\<close>, called for the owner \<open>U\<close> of the context and the task
  identifier \<open>T\<close> of the path, replies 200, the request had a body that parsed, the
  store held a task with identifier \<open>T\<close> and owner \<open>U\<close>, and the first such task is
  now the body with its identifier set to \<open>T\<close> and its owner set to \<open>U\<close>, whatever
  the body said; every other document is as before, and the reply carries the same
  record.
\<close>

theorem update_keeps_identifier_and_owner:
  fixes U T :: ObjectID
  assumes ok: "UpdateTask env db (Some (JString (Hex U))) (Hex T) body = (Reply StatusOK b, db')"
  shows "\<exists>task pre old post.
           body = Some task
         \<and> TasksCollection db = pre @ old # post \<and> ID old = T \<and> UserID old = U
         \<and> (\<forall>t \<in> set pre. \<not> (ID t = T \<and> UserID t = U))
         \<and> TasksCollection db' = pre @ task\<lparr>UserID := U, ID := T\<rparr> # post
         \<and> b = TaskJSON (task\<lparr>UserID := U, ID := T\<rparr>)
         \<and> UsersCollection db' = UsersCollection db"
proof -
  have U: "fst (ObjectIDFromHex (Hex U)) = U" and T: "ObjectIDFromHex (Hex T) = (T, None)"
    by (simp_all add: ObjectIDFromHex_Hex)
  from ok obtain task where body: "body = Some task"
    by (cases body) (auto simp: UpdateTask_def assert_string_def T)
  let ?upd = "task\<lparr>UserID := U, ID := T\<rparr>"
  from ok body obtain n ds where
    r: "update_first (id_and_owner_are T U) ?upd (TasksCollection db) = Inr (n, ds)"
    and n: "n \<noteq> 0" and b: "b = TaskJSON ?upd" and db': "db' = db\<lparr>TasksCollection := ds\<rparr>"
    by (auto simp: UpdateTask_def assert_string_def T U UpdateOne_def Let_def
             split: if_splits sum.splits prod.splits)
  have "ID ?upd = T" by simp
  from update_first_match [OF r n this] obtain pre old post where
    p: "TasksCollection db = pre @ old # post" "ID old = T" "UserID old = U"
       "\<forall>t \<in> set pre. \<not> (ID t = T \<and> UserID t = U)" "ds = pre @ ?upd # post"
    by blast
  have "body = Some task
         \<and> TasksCollection db = pre @ old # post \<and> ID old = T \<and> UserID old = U
         \<and> (\<forall>t \<in> set pre. \<not> (ID t = T \<and> UserID t = U))
         \<and> TasksCollection db' = pre @ ?upd # post
         \<and> b = TaskJSON ?upd
         \<and> UsersCollection db' = UsersCollection db"
    using body b db' p by simp
  then show ?thesis by blast
qed

theorem update_keeps_identifier_and_owner_witness:
  "UpdateTask test_env test_db (Some (JString (Hex 2))) (Hex 1) (Some updated_task)
   = (Reply StatusOK (TaskJSON (updated_task\<lparr>UserID := 2, ID := 1\<rparr>)),
      test_db\<lparr>TasksCollection := [other_task, updated_task\<lparr>UserID := 2, ID := 1\<rparr>]\<rparr>)
   \<and> (\<exists>task pre old post.
           Some updated_task = Some task
         \<and> TasksCollection test_db = pre @ old # post \<and> ID old = 1 \<and> UserID old = 2
         \<and> (\<forall>t \<in> set pre. \<not> (ID t = 1 \<and> UserID t = 2))
         \<and> TasksCollection (test_db\<lparr>TasksCollection := [other_task, updated_task\<lparr>UserID := 2, ID := 1\<rparr>]\<rparr>)
             = pre @ task\<lparr>UserID := 2, ID := 1\<rparr> # post
         \<and> TaskJSON (updated_task\<lparr>UserID := 2, ID := 1\<rparr>) = TaskJSON (task\<lparr>UserID := 2, ID := 1\<rparr>)
         \<and> UsersCollection (test_db\<lparr>TasksCollection := [other_task, updated_task\<lparr>UserID := 2, ID := 1\<rparr>]\<rparr>)
             = UsersCollection test_db)"
proof -
  have run: "UpdateTask test_env test_db (Some (JString (Hex 2))) (Hex 1) (Some updated_task)
   = (Reply StatusOK (TaskJSON (updated_task\<lparr>UserID := 2, ID := 1\<rparr>)),
      test_db\<lparr>TasksCollection := [other_task, updated_task\<lparr>UserID := 2, ID := 1\<rparr>]\<rparr>)"
    by (simp add: UpdateTask_def assert_string_def ObjectIDFromHex_Hex UpdateOne_def
          id_and_owner_are_def set_fields_def NilObjectID_def Let_def
          test_env_def test_db_def test_task_def other_task_def updated_task_def)
  from run update_keeps_identifier_and_owner [OF run] show ?thesis
    by (rule conjI)
qed

section \<open>Creating a task\<close>

lemma find_username_Some:
  "\<exists>u \<in> set users. Username u = n \<Longrightarrow> \<exists>u. find (username_is n) users = Some u"
  by (cases "find (username_is n) users") (auto simp: find_None_iff username_is_def)

lemma CreateTask_created:
  assumes assignee: "\<exists>u \<in> set (UsersCollection db). Username u = AllottedTo task"
    and fresh: "NewObjectID env \<noteq> NilObjectID" "NewObjectID env \<notin> set (map ID (TasksCollection db))"
    and driver: "\<not> ReadFails env" "\<not> WriteFails env"
  shows "CreateTask env db (Some (JString userId)) (Some task)
         = (Reply StatusCreated
              (TaskJSON (task\<lparr>ID := NewObjectID env, UserID := fst (ObjectIDFromHex userId),
                               StartDate := NewDateTimeFromTime (Now env), Status := ''Pending''\<rparr>)),
            db\<lparr>TasksCollection := TasksCollection db @
              [task\<lparr>ID := NewObjectID env, UserID := fst (ObjectIDFromHex userId),
                     StartDate := NewDateTimeFromTime (Now env), Status := ''Pending''\<rparr>]\<rparr>)"
proof -
  from find_username_Some [OF assignee] obtain u where
    "find (username_is (AllottedTo task)) (UsersCollection db) = Some u" ..
  then have found: "FindOne (ReadFails env) (username_is (AllottedTo task)) (UsersCollection db) = Inr u"
    using driver(1) by (simp add: FindOne_def)
  let ?t = "task\<lparr>ID := NewObjectID env, UserID := fst (ObjectIDFromHex userId),
                  StartDate := NewDateTimeFromTime (Now env), Status := ''Pending''\<rparr>"
  have ins: "InsertOne_Task (WriteFails env) (GeneratedID env) ?t (TasksCollection db)
             = Inr (NewObjectID env, TasksCollection db @ [?t])"
    using fresh driver(2) by (simp add: InsertOne_Task_def Let_def)
  show ?thesis
    by (simp add: CreateTask_def assert_string_def found ins Let_def)
qed

text \<open>
  Claim C6. An authenticated \<open>CreateTask\<close> whose body parses and whose assignee is a
  stored username, with a freshly generated identifier and no driver failure, appends one
  record to the task store and replies 201 with that same record: the body with its
  identifier set to the generated one, its owner to the authenticated user identifier
  \<open>U\<close>, its start time to the server's current time and its status to \<open>Pending\<close>,
  whatever the body said for these four fields.
\<close>

theorem create_sets_server_fields:
  fixes U :: ObjectID
  assumes assignee: "\<exists>u \<in> set (UsersCollection db). Username u = AllottedTo task"
    and fresh: "NewObjectID env \<noteq> NilObjectID" "NewObjectID env \<notin> set (map ID (TasksCollection db))"
    and driver: "\<not> ReadFails env" "\<not> WriteFails env"
  shows "CreateTask env db (Some (JString (Hex U))) (Some task)
         = (Reply StatusCreated
              (TaskJSON (task\<lparr>ID := NewObjectID env, UserID := U,
                               StartDate := NewDateTimeFromTime (Now env), Status := ''Pending''\<rparr>)),
            db\<lparr>TasksCollection := TasksCollection db @
              [task\<lparr>ID := NewObjectID env, UserID := U,
                     StartDate := NewDateTimeFromTime (Now env), Status := ''Pending''\<rparr>]\<rparr>)"
proof -
  have "fst (ObjectIDFromHex (Hex U)) = U"
    by (simp add: ObjectIDFromHex_Hex)
  with CreateTask_created [OF assms, of "Hex U"] show ?thesis
    by simp
qed

theorem create_sets_server_fields_witness:
  "CreateTask test_env test_db (Some (JString (Hex 2))) (Some (updated_task\<lparr>AllottedTo := ''testuser''\<rparr>))
   = (Reply StatusCreated
        (TaskJSON \<lparr>ID = 17, UserID = 2, Title = ''Updated Test Task'',
                    Description = ''This is an updated test task'', AllottedTo = ''testuser'',
                    DoneBy = [], Status = ''Pending'', StartDate = 1720000060000, EndDate = 0\<rparr>),
      test_db\<lparr>TasksCollection := [other_task, test_task,
                  \<lparr>ID = 17, UserID = 2, Title = ''Updated Test Task'',
                    Description = ''This is an updated test task'', AllottedTo = ''testuser'',
                    DoneBy = [], Status = ''Pending'', StartDate = 1720000060000, EndDate = 0\<rparr>]\<rparr>)"
  using create_sets_server_fields [of test_db "updated_task\<lparr>AllottedTo := ''testuser''\<rparr>" test_env 2]
  by (simp add: test_env_def test_db_def test_task_def other_task_def updated_task_def testuser_def
        NilObjectID_def NewDateTimeFromTime_def)

text \<open>
  Claim C7. An authenticated \<open>CreateTask\<close> whose assignee (\<open>allotted_to\<close>) is not the
  username of any stored user replies 400 and leaves the store as it was.
\<close>

theorem create_unknown_assignee:
  assumes "\<forall>u \<in> set (UsersCollection db). Username u \<noteq> AllottedTo task"
    and "\<not> ReadFails env"
  shows "CreateTask env db (Some (JString userId)) (Some task)
         = (Reply StatusBadRequest (ErrorJSON ''Allotted user does not exist''), db)"
proof -
  have "\<forall>u \<in> set (UsersCollection db). \<not> username_is (AllottedTo task) u"
    using assms(1) by (simp add: username_is_def)
  then have "FindOne (ReadFails env) (username_is (AllottedTo task)) (UsersCollection db)
             = Inl ErrNoDocuments"
    using assms(2) by (simp add: FindOne_def find_None_iff[THEN iffD2])
  then show ?thesis
    by (simp add: CreateTask_def assert_string_def)
qed

theorem create_unknown_assignee_witness:
  "CreateTask test_env test_db (Some (JString (Hex 2))) (Some updated_task)
   = (Reply StatusBadRequest (ErrorJSON ''Allotted user does not exist''), test_db)"
  using create_unknown_assignee [of test_db updated_task test_env "Hex 2"]
  by (simp add: test_env_def test_db_def updated_task_def testuser_def)

text \<open>
  Claim C10. When the user identifier from the token is not a string of 24 hexadecimal
  characters, \<open>ObjectIDFromHex\<close> returns an error, \<open>CreateTask\<close> drops it, and the task
  is created all the same (201), owned by the zero identifier.
\<close>

theorem create_with_malformed_user_id:
  assumes malformed: "\<not> well_formed_hex userId"
    and assignee: "\<exists>u \<in> set (UsersCollection db). Username u = AllottedTo task"
    and fresh: "NewObjectID env \<noteq> NilObjectID" "NewObjectID env \<notin> set (map ID (TasksCollection db))"
    and driver: "\<not> ReadFails env" "\<not> WriteFails env"
  shows "snd (ObjectIDFromHex userId) \<noteq> None
       \<and> CreateTask env db (Some (JString userId)) (Some task)
         = (Reply StatusCreated
              (TaskJSON (task\<lparr>ID := NewObjectID env, UserID := NilObjectID,
                               StartDate := NewDateTimeFromTime (Now env), Status := ''Pending''\<rparr>)),
            db\<lparr>TasksCollection := TasksCollection db @
              [task\<lparr>ID := NewObjectID env, UserID := NilObjectID,
                     StartDate := NewDateTimeFromTime (Now env), Status := ''Pending''\<rparr>]\<rparr>)"
proof -
  from malformed have err: "snd (ObjectIDFromHex userId) \<noteq> None"
    by (rule ObjectIDFromHex_error_iff [THEN iffD2])
  then have "fst (ObjectIDFromHex userId) = NilObjectID"
    by (rule ObjectIDFromHex_error_Nil)
  with CreateTask_created [OF assignee fresh driver, of userId] err show ?thesis
    by simp
qed

theorem create_with_malformed_user_id_witness:
  "CreateTask test_env test_db (Some (JString ''testuser'')) (Some test_task)
   = (Reply StatusCreated
        (TaskJSON (test_task\<lparr>ID := 17, UserID := 0, StartDate := 1720000060000\<rparr>)),
      test_db\<lparr>TasksCollection := [other_task, test_task,
                  test_task\<lparr>ID := 17, UserID := 0, StartDate := 1720000060000\<rparr>]\<rparr>)"
  using create_with_malformed_user_id [of "''testuser''" test_db test_task test_env]
  by (simp add: test_env_def test_db_def test_task_def other_task_def testuser_def
        NilObjectID_def NewDateTimeFromTime_def well_formed_hex_def)

section \<open>Reading a task\<close>

text \<open>
  Claim C9, as amended. \<open>GetTask\<close> replies 400 (\<open>Invalid task ID\<close>) when the task
  identifier of the path is not well formed, and 404 when it is well formed and no task
  has both that identifier and the owner of the context.
\<close>

theorem get_task_errors:
  "(\<not> well_formed_hex taskId \<longrightarrow>
      GetTask env db (Some (JString userId)) taskId
        = Reply StatusBadRequest (ErrorJSON ''Invalid task ID''))
   \<and> (well_formed_hex taskId
        \<and> (\<forall>t \<in> set (TasksCollection db).
              \<not> (ID t = fst (ObjectIDFromHex taskId) \<and> UserID t = fst (ObjectIDFromHex userId))) \<longrightarrow>
      GetTask env db (Some (JString userId)) taskId
        = Reply StatusNotFound (ErrorJSON ''Task not found''))"
proof (intro conjI impI)
  assume "\<not> well_formed_hex taskId"
  then have "snd (ObjectIDFromHex taskId) \<noteq> None"
    by (rule ObjectIDFromHex_error_iff [THEN iffD2])
  then show "GetTask env db (Some (JString userId)) taskId
        = Reply StatusBadRequest (ErrorJSON ''Invalid task ID'')"
    by (auto simp: GetTask_def assert_string_def split: prod.splits option.splits)
next
  assume a: "well_formed_hex taskId
        \<and> (\<forall>t \<in> set (TasksCollection db).
              \<not> (ID t = fst (ObjectIDFromHex taskId) \<and> UserID t = fst (ObjectIDFromHex userId)))"
  then have "snd (ObjectIDFromHex taskId) = None"
    using ObjectIDFromHex_error_iff [of taskId] by simp
  then have wf: "ObjectIDFromHex taskId = (fst (ObjectIDFromHex taskId), None)"
    by (simp add: prod_eq_iff)
  from a have "\<forall>t \<in> set (TasksCollection db).
        \<not> (ID t = fst (ObjectIDFromHex taskId) \<and> UserID t = fst (ObjectIDFromHex userId))"
    by simp
  from GetTask_no_match [OF this wf]
  show "GetTask env db (Some (JString userId)) taskId
        = Reply StatusNotFound (ErrorJSON ''Task not found'')" .
qed

theorem get_task_errors_witness:
  "GetTask test_env test_db (Some (JString (Hex 2))) ''1''
     = Reply StatusBadRequest (ErrorJSON ''Invalid task ID'')
   \<and> GetTask test_env test_db (Some (JString ''testuser'')) ''00000000000000000000000A''
     = Reply StatusNotFound (ErrorJSON ''Task not found'')"
proof -
  have "fst (ObjectIDFromHex ''00000000000000000000000A'') = 10"
    by code_simp
  moreover have "fst (ObjectIDFromHex ''testuser'') = 0"
    by (simp add: ObjectIDFromHex_def NilObjectID_def)
  ultimately show ?thesis
    using get_task_errors [of "''1''" test_env test_db "Hex 2"]
      get_task_errors [of "''00000000000000000000000A''" test_env test_db "''testuser''"]
    by (simp add: well_formed_hex_def test_db_def test_task_def other_task_def)
qed

text \<open>The claim as stated fails: a malformed identifier is answered with 400, not 404.\<close>

theorem get_task_malformed_id_is_bad_request:
  "\<not> well_formed_hex ''1''
   \<and> GetTask test_env test_db (Some (JString (Hex 2))) ''1''
     = Reply StatusBadRequest (ErrorJSON ''Invalid task ID'')"
  by (simp add: well_formed_hex_def GetTask_def assert_string_def ObjectIDFromHex_def)

section \<open>Signing up and signing in\<close>

lemma find_username_None:
  "\<forall>u \<in> set users. Username u \<noteq> n \<Longrightarrow> find (username_is n) users = None"
  by (simp add: find_None_iff username_is_def)

lemma find_append_Some: "find P xs = Some x \<Longrightarrow> find P (xs @ ys) = Some x"
  by (induction xs) (auto split: if_splits)

lemma find_username_append:
  "\<forall>x \<in> set users. Username x \<noteq> Username u \<Longrightarrow>
   find (username_is (Username u)) (users @ [u]) = Some u"
  by (induction users) (auto simp: username_is_def)

text \<open>
  Claim C4. For a sign-in request with a non-blank username and password (and a store
  read that does not fail), the reply is 401 with the body \<open>invalid credentials\<close> both
  when no user has the username and when the stored hash of the user found does not
  verify the password: the two replies are the same value.
\<close>

theorem sign_in_failures_indistinguishable:
  assumes nonblank: "Username user1 \<noteq> []" "Password user1 \<noteq> []"
                    "Username user2 \<noteq> []" "Password user2 \<noteq> []"
    and driver: "\<not> ReadFails env1" "\<not> ReadFails env2"
    and unknown: "\<forall>u \<in> set (UsersCollection db1). Username u \<noteq> Username user1"
    and known: "find (username_is (Username user2)) (UsersCollection db2) = Some foundUser"
    and wrong: "\<not> CheckPasswordHash cmp (Password user2) (Password foundUser)"
  shows "SignIn sign cmp jwtSecret tokenExpiryTime env1 db1 (Some user1)
           = Reply StatusUnauthorized (ErrorJSON ''invalid credentials'')
       \<and> SignIn sign cmp jwtSecret tokenExpiryTime env2 db2 (Some user2)
           = Reply StatusUnauthorized (ErrorJSON ''invalid credentials'')"
proof
  have "FindOne (ReadFails env1) (username_is (Username user1)) (UsersCollection db1)
        = Inl ErrNoDocuments"
    using find_username_None [OF unknown] driver(1) by (simp add: FindOne_def)
  then show "SignIn sign cmp jwtSecret tokenExpiryTime env1 db1 (Some user1)
           = Reply StatusUnauthorized (ErrorJSON ''invalid credentials'')"
    using nonblank(1,2) by (simp add: SignIn_def)
next
  have "FindOne (ReadFails env2) (username_is (Username user2)) (UsersCollection db2)
        = Inr foundUser"
    using known driver(2) by (simp add: FindOne_def)
  then show "SignIn sign cmp jwtSecret tokenExpiryTime env2 db2 (Some user2)
           = Reply StatusUnauthorized (ErrorJSON ''invalid credentials'')"
    using nonblank(3,4) wrong by (simp add: SignIn_def)
qed

theorem sign_in_failures_indistinguishable_witness:
  "SignIn test_sign test_cmp ''secret'' 60 test_env test_db
     (Some \<lparr>User.ID = 0, Username = ''nonexistentuser'', Password = ''password''\<rparr>)
   = Reply StatusUnauthorized (ErrorJSON ''invalid credentials'')
   \<and> SignIn test_sign test_cmp ''secret'' 60 test_env test_db
     (Some \<lparr>User.ID = 0, Username = ''testuser'', Password = ''invalidpassword''\<rparr>)
   = Reply StatusUnauthorized (ErrorJSON ''invalid credentials'')"
  using sign_in_failures_indistinguishable
    [of "\<lparr>User.ID = 0, Username = ''nonexistentuser'', Password = ''password''\<rparr>"
        "\<lparr>User.ID = 0, Username = ''testuser'', Password = ''invalidpassword''\<rparr>"
        test_env test_env test_db test_db testuser test_cmp test_sign "''secret''" 60]
  by (simp add: test_env_def test_db_def testuser_def test_cmp_def CheckPasswordHash_def
        username_is_def)

lemma sign_up_taken:
  assumes "\<exists>u \<in> set (UsersCollection db). Username u = Username user"
    and "Username user \<noteq> []" and "\<not> ReadFails env"
  shows "SignUp gen env db (Some user)
         = (Reply StatusBadRequest (ErrorJSON ''username already taken''), db)"
proof -
  from assms(1) obtain u where
    f: "find (username_is (Username user)) (UsersCollection db) = Some u"
    by (cases "find (username_is (Username user)) (UsersCollection db)")
       (auto simp: find_None_iff username_is_def)
  then have "Username u = Username user"
    by (auto simp: find_Some_iff username_is_def)
  with f assms(2,3) show ?thesis
    by (simp add: SignUp_def FindOne_def Decode_def)
qed

lemma sign_up_created:
  assumes "SignUp gen env db (Some user) = (Reply StatusCreated (UserJSON u), db')"
    and "Username user \<noteq> []"
  shows "(\<forall>x \<in> set (UsersCollection db). Username x \<noteq> Username user)
       \<and> Username u = Username user \<and> Password u = HashPassword gen (Password user)
       \<and> UsersCollection db' = UsersCollection db @ [u]
       \<and> TasksCollection db' = TasksCollection db"
proof -
  have none: "find (username_is (Username user)) (UsersCollection db) = None"
  proof (cases "find (username_is (Username user)) (UsersCollection db)")
    case None
    then show ?thesis .
  next
    case (Some x)
    then have "Username x = Username user"
      by (auto simp: find_Some_iff username_is_def)
    with Some assms show ?thesis
      by (auto simp: SignUp_def FindOne_def Decode_def split: if_splits)
  qed
  then have 1: "\<forall>x \<in> set (UsersCollection db). Username x \<noteq> Username user"
    by (simp add: find_None_iff username_is_def)
  from assms(1) none have
    "Username u = Username user \<and> Password u = HashPassword gen (Password user)
       \<and> UsersCollection db' = UsersCollection db @ [u]
       \<and> TasksCollection db' = TasksCollection db"
    by (auto simp: SignUp_def FindOne_def Decode_def InsertOne_User_def Let_def zero_User_def
             split: if_splits)
  with 1 show ?thesis by simp
qed

text \<open>
  Claim C8. \<open>sign_up_taken\<close> above is the claim for every non-blank username. For the
  blank username the check \<open>existingUser.Username != ""\<close> cannot tell a stored user
  from none: two sign-ups with the blank username both reply 201 and leave two records
  with the same username.
\<close>

theorem sign_up_blank_username_twice:
  "SignUp test_gen test_env \<lparr>UsersCollection = [], TasksCollection = []\<rparr>
     (Some \<lparr>User.ID = 0, Username = [], Password = ''pw1''\<rparr>)
   = (Reply StatusCreated (UserJSON \<lparr>User.ID = 18, Username = [], Password = ''$pw1''\<rparr>),
      \<lparr>UsersCollection = [\<lparr>User.ID = 18, Username = [], Password = ''$pw1''\<rparr>],
       TasksCollection = []\<rparr>)
   \<and> SignUp test_gen (test_env\<lparr>GeneratedID := 19\<rparr>)
       \<lparr>UsersCollection = [\<lparr>User.ID = 18, Username = [], Password = ''$pw1''\<rparr>],
        TasksCollection = []\<rparr>
       (Some \<lparr>User.ID = 0, Username = [], Password = ''pw2''\<rparr>)
   = (Reply StatusCreated (UserJSON \<lparr>User.ID = 19, Username = [], Password = ''$pw2''\<rparr>),
      \<lparr>UsersCollection = [\<lparr>User.ID = 18, Username = [], Password = ''$pw1''\<rparr>,
                          \<lparr>User.ID = 19, Username = [], Password = ''$pw2''\<rparr>],
       TasksCollection = []\<rparr>)"
  by (simp add: SignUp_def Decode_def FindOne_def username_is_def zero_User_def HashPassword_def
        test_gen_def test_env_def InsertOne_User_def NilObjectID_def Let_def)

section \<open>Tokens\<close>

lemma SignIn_token:
  assumes "find (username_is (Username user)) (UsersCollection db) = Some foundUser"
    and "Username user \<noteq> []" "Password user \<noteq> []"
    and "CheckPasswordHash cmp (Password user) (Password foundUser)"
    and "\<not> ReadFails env"
  shows "SignIn sign cmp jwtSecret tokenExpiryTime env db (Some user)
         = Reply StatusOK (TokenJSON
             (Compact HS256
                [''userId'' \<mapsto> JString (Hex (User.ID foundUser)),
                 ''exp'' \<mapsto> JNumber (Unix (Now env + Seconds tokenExpiryTime))]
                (sign HS256 jwtSecret
                   [''userId'' \<mapsto> JString (Hex (User.ID foundUser)),
                    ''exp'' \<mapsto> JNumber (Unix (Now env + Seconds tokenExpiryTime))])))"
  using assms
  by (simp add: SignIn_def FindOne_def SignedString_def is_SigningMethodHMAC_def Let_def)

lemma SignIn_ok_token:
  assumes "SignIn sign cmp jwtSecret tokenExpiryTime env db body = Reply StatusOK (TokenJSON tokenString)"
  shows "\<exists>S. tokenString = Compact HS256
                [''userId'' \<mapsto> JString S,
                 ''exp'' \<mapsto> JNumber (Unix (Now env + Seconds tokenExpiryTime))]
                (sign HS256 jwtSecret
                   [''userId'' \<mapsto> JString S,
                    ''exp'' \<mapsto> JNumber (Unix (Now env + Seconds tokenExpiryTime))])"
  using assms
  by (auto simp: SignIn_def SignedString_def is_SigningMethodHMAC_def Let_def
           split: option.splits if_splits sum.splits)

lemma claims_valid_iff:
  "MapClaims_Valid now [''userId'' \<mapsto> JString S, ''exp'' \<mapsto> JNumber E]
   = (if E = 0 \<or> now < E then [] else [Expired])"
  by (simp add: MapClaims_Valid_def VerifyExpiresAt_def VerifyIssuedAt_def VerifyNotBefore_def)

lemma Parse_issued:
  "Parse sign (keyFunc secret) now
     (Compact HS256 [''userId'' \<mapsto> JString S, ''exp'' \<mapsto> JNumber E]
        (sign HS256 secret [''userId'' \<mapsto> JString S, ''exp'' \<mapsto> JNumber E]))
   = (if E = 0 \<or> Unix now < E
      then Inr \<lparr>Method = HS256, Claims = [''userId'' \<mapsto> JString S, ''exp'' \<mapsto> JNumber E],
                Signature = sign HS256 secret [''userId'' \<mapsto> JString S, ''exp'' \<mapsto> JNumber E],
                Valid = True\<rparr>
      else Inl [Expired])"
  by (simp add: Parse_def keyFunc_def is_SigningMethodHMAC_def claims_valid_iff)

lemma JWTMiddleware_issued:
  "JWTMiddleware sign secret env
     (Compact HS256 [''userId'' \<mapsto> JString S, ''exp'' \<mapsto> JNumber E]
        (sign HS256 secret [''userId'' \<mapsto> JString S, ''exp'' \<mapsto> JNumber E]))
   = (if E = 0 \<or> Unix (Now env) < E then Next (Some (JString S))
      else Halt (Reply StatusUnauthorized (ErrorJSON ''invalid JWT'')))"
  by (simp add: JWTMiddleware_def Parse_issued)

lemma Unix_late: "E * 1000000000 < t \<Longrightarrow> \<not> Unix t < E"
proof -
  assume "E * 1000000000 < t"
  then have "E * 1000000000 div 1000000000 \<le> t div 1000000000"
    by (intro zdiv_mono1) simp_all
  then show ?thesis by (simp add: Unix_def)
qed

lemma Unix_early: "t \<le> (E - 1) * 1000000000 \<Longrightarrow> Unix t < E"
proof -
  assume "t \<le> (E - 1) * 1000000000"
  then have "t div 1000000000 \<le> (E - 1) * 1000000000 div 1000000000"
    by (intro zdiv_mono1) simp_all
  then show ?thesis by (simp add: Unix_def)
qed

lemma Seconds_small: "- 9223372036 \<le> n \<Longrightarrow> n \<le> 9223372036 \<Longrightarrow> Seconds n = 1000000000 * n"
  unfolding Seconds_def sint_sbintrunc' by (rule signed_take_bit_int_eq_self) simp_all

lemma test_sign_in:
  "SignIn test_sign test_cmp ''secret'' 60 test_env test_db
     (Some \<lparr>User.ID = 0, Username = ''testuser'', Password = ''testpassword''\<rparr>)
   = Reply StatusOK (TokenJSON
       (Compact HS256 [''userId'' \<mapsto> JString (Hex 2), ''exp'' \<mapsto> JNumber 1720000120] ''secret''))"
proof -
  have "find (username_is ''testuser'') (UsersCollection test_db) = Some testuser"
    by (simp add: test_db_def testuser_def username_is_def)
  from SignIn_token [of "\<lparr>User.ID = 0, Username = ''testuser'', Password = ''testpassword''\<rparr>"
      test_db testuser test_cmp test_env test_sign "''secret''" 60] this
  show ?thesis
    by (simp add: testuser_def test_cmp_def CheckPasswordHash_def test_env_def test_sign_def
          Seconds_small Unix_def)
qed

text \<open>
  Claim C5, as amended. A token that \<open>SignIn\<close> issued with an expiry \<open>E\<close> other than
  zero (in Unix seconds) fails validation with the error \<open>Expired\<close>, and the gate
  replies 401, at every time after \<open>E\<close>; at every time up to one second before \<open>E\<close>
  it validates and the gate lets the request pass.
\<close>

theorem token_expiry:
  assumes issued: "SignIn sign cmp secret tokenExpiryTime env0 db body
                   = Reply StatusOK (TokenJSON tokenString)"
    and nonzero: "Unix (Now env0 + Seconds tokenExpiryTime) \<noteq> 0"
  shows "(Unix (Now env0 + Seconds tokenExpiryTime) * 1000000000 < Now env \<longrightarrow>
            (\<exists>err. Parse sign (keyFunc secret) (Now env) tokenString = Inl err \<and> Expired \<in> set err)
          \<and> JWTMiddleware sign secret env tokenString
              = Halt (Reply StatusUnauthorized (ErrorJSON ''invalid JWT'')))
       \<and> (Now env \<le> (Unix (Now env0 + Seconds tokenExpiryTime) - 1) * 1000000000 \<longrightarrow>
            (\<exists>token. Parse sign (keyFunc secret) (Now env) tokenString = Inr token \<and> Valid token)
          \<and> (\<exists>S. JWTMiddleware sign secret env tokenString = Next (Some (JString S))))"
proof -
  let ?E = "Unix (Now env0 + Seconds tokenExpiryTime)"
  from SignIn_ok_token [OF issued] obtain S where
    tok: "tokenString = Compact HS256 [''userId'' \<mapsto> JString S, ''exp'' \<mapsto> JNumber ?E]
            (sign HS256 secret [''userId'' \<mapsto> JString S, ''exp'' \<mapsto> JNumber ?E])"
    by blast
  have late: "(\<exists>err. Parse sign (keyFunc secret) (Now env) tokenString = Inl err \<and> Expired \<in> set err)
          \<and> JWTMiddleware sign secret env tokenString
              = Halt (Reply StatusUnauthorized (ErrorJSON ''invalid JWT''))"
    if "?E * 1000000000 < Now env"
    using Unix_late [OF that] nonzero
    by (simp add: tok Parse_issued JWTMiddleware_issued)
  have early: "(\<exists>token. Parse sign (keyFunc secret) (Now env) tokenString = Inr token \<and> Valid token)
          \<and> (\<exists>S. JWTMiddleware sign secret env tokenString = Next (Some (JString S)))"
    if "Now env \<le> (?E - 1) * 1000000000"
    using Unix_early [OF that]
    by (simp add: tok Parse_issued JWTMiddleware_issued)
  from late early show ?thesis by blast
qed

theorem token_expiry_witness:
  "JWTMiddleware test_sign ''secret'' (test_env\<lparr>Now := 1720000120000000001\<rparr>)
     (Compact HS256 [''userId'' \<mapsto> JString (Hex 2), ''exp'' \<mapsto> JNumber 1720000120] ''secret'')
   = Halt (Reply StatusUnauthorized (ErrorJSON ''invalid JWT''))
   \<and> (\<exists>S. JWTMiddleware test_sign ''secret'' (test_env\<lparr>Now := 1720000119000000000\<rparr>)
     (Compact HS256 [''userId'' \<mapsto> JString (Hex 2), ''exp'' \<mapsto> JNumber 1720000120] ''secret'')
   = Next (Some (JString S)))"
proof -
  have E: "Unix (Now test_env + Seconds 60) = 1720000120"
    by (simp add: test_env_def Seconds_small Unix_def)
  then have nz: "Unix (Now test_env + Seconds 60) \<noteq> 0"
    by simp
  from token_expiry [OF test_sign_in nz, of "test_env\<lparr>Now := 1720000120000000001\<rparr>"]
       token_expiry [OF test_sign_in nz, of "test_env\<lparr>Now := 1720000119000000000\<rparr>"]
  show ?thesis
    by (simp add: E)
qed

text \<open>
  The claim as stated fails for the expiry zero, which the validation takes for an
  unset claim: with a token lifetime of minus 1720000060 seconds, the token issued at
  the sample time has expiry 0, and it passes the gate at that time and a day later,
  both after its expiry.
\<close>

theorem token_with_zero_expiry_never_expires:
  "SignIn test_sign test_cmp ''secret'' (- 1720000060) test_env test_db
     (Some \<lparr>User.ID = 0, Username = ''testuser'', Password = ''testpassword''\<rparr>)
   = Reply StatusOK (TokenJSON
       (Compact HS256 [''userId'' \<mapsto> JString (Hex 2), ''exp'' \<mapsto> JNumber 0] ''secret''))
   \<and> 0 * 1000000000 < Now test_env
   \<and> JWTMiddleware test_sign ''secret'' test_env
       (Compact HS256 [''userId'' \<mapsto> JString (Hex 2), ''exp'' \<mapsto> JNumber 0] ''secret'')
   = Next (Some (JString (Hex 2)))
   \<and> JWTMiddleware test_sign ''secret'' (test_env\<lparr>Now := 1720086460000000000\<rparr>)
       (Compact HS256 [''userId'' \<mapsto> JString (Hex 2), ''exp'' \<mapsto> JNumber 0] ''secret'')
   = Next (Some (JString (Hex 2)))"
proof -
  have "find (username_is ''testuser'') (UsersCollection test_db) = Some testuser"
    by (simp add: test_db_def testuser_def username_is_def)
  from SignIn_token [of "\<lparr>User.ID = 0, Username = ''testuser'', Password = ''testpassword''\<rparr>"
      test_db testuser test_cmp test_env test_sign "''secret''" "- 1720000060"] this
  have issue: "SignIn test_sign test_cmp ''secret'' (- 1720000060) test_env test_db
     (Some \<lparr>User.ID = 0, Username = ''testuser'', Password = ''testpassword''\<rparr>)
   = Reply StatusOK (TokenJSON
       (Compact HS256 [''userId'' \<mapsto> JString (Hex 2), ''exp'' \<mapsto> JNumber 0] ''secret''))"
    by (simp add: testuser_def test_cmp_def CheckPasswordHash_def test_env_def test_sign_def
          Seconds_small Unix_def)
  have clock: "0 * 1000000000 < Now test_env"
    by (simp add: test_env_def)
  from JWTMiddleware_issued [of test_sign "''secret''" test_env "Hex 2" 0]
  have now: "JWTMiddleware test_sign ''secret'' test_env
       (Compact HS256 [''userId'' \<mapsto> JString (Hex 2), ''exp'' \<mapsto> JNumber 0] ''secret'')
   = Next (Some (JString (Hex 2)))"
    by (simp add: test_sign_def)
  from JWTMiddleware_issued [of test_sign "''secret''" "test_env\<lparr>Now := 1720086460000000000\<rparr>" "Hex 2" 0]
  have later: "JWTMiddleware test_sign ''secret'' (test_env\<lparr>Now := 1720086460000000000\<rparr>)
       (Compact HS256 [''userId'' \<mapsto> JString (Hex 2), ''exp'' \<mapsto> JNumber 0] ''secret'')
   = Next (Some (JString (Hex 2)))"
    by (simp add: test_sign_def)
  from issue clock now later show ?thesis
    by (intro conjI)
qed

text \<open>
  Claim C3, as amended. Let sign-up create a user with identifier \<open>I\<close> from a non-blank
  username and a non-blank password whose stored hash verifies the password. Then a
  sign-in with that username and password, on the store as sign-up left it or with users
  added since, replies 200 with a token; at every time before
  the token's expiry the gate validates it with the same secret and attaches exactly the
  hexadecimal form of \<open>I\<close> to the request context, from which the handlers recover
  \<open>I\<close>.
\<close>

theorem sign_in_token_recovers_identifier:
  assumes up: "SignUp gen env1 db (Some \<lparr>User.ID = i1, Username = n, Password = p\<rparr>)
               = (Reply StatusCreated (UserJSON u), db')"
    and later: "UsersCollection db2 = UsersCollection db' @ users"
    and nonblank: "n \<noteq> []" "p \<noteq> []"
    and verifies: "CheckPasswordHash cmp p (HashPassword gen p)"
    and driver: "\<not> ReadFails env2"
  shows "\<exists>tokenString.
           SignIn sign cmp secret tokenExpiryTime env2 db2
             (Some \<lparr>User.ID = i2, Username = n, Password = p\<rparr>)
           = Reply StatusOK (TokenJSON tokenString)
         \<and> (\<forall>env3. Unix (Now env3) < Unix (Now env2 + Seconds tokenExpiryTime) \<longrightarrow>
               JWTMiddleware sign secret env3 tokenString = Next (Some (JString (Hex (User.ID u))))
             \<and> (\<exists>token. Parse sign (keyFunc secret) (Now env3) tokenString = Inr token
                       \<and> SuccessHandler token = Next (Some (JString (Hex (User.ID u))))))
         \<and> assert_string (Some (JString (Hex (User.ID u)))) = Some (Hex (User.ID u))
         \<and> ObjectIDFromHex (Hex (User.ID u)) = (User.ID u, None)"
proof -
  let ?E = "Unix (Now env2 + Seconds tokenExpiryTime)"
  let ?claims = "[''userId'' \<mapsto> JString (Hex (User.ID u)), ''exp'' \<mapsto> JNumber ?E]"
  let ?tok = "Compact HS256 ?claims (sign HS256 secret ?claims)"
  from sign_up_created [OF up] nonblank(1) have
    fresh: "\<forall>x \<in> set (UsersCollection db). Username x \<noteq> n"
    and u: "Username u = n" "Password u = HashPassword gen p"
    and users: "UsersCollection db' = UsersCollection db @ [u]"
    by simp_all
  have "find (username_is (Username u)) (UsersCollection db @ [u]) = Some u"
    using fresh u(1) by (intro find_username_append) simp
  then have "find (username_is n) ((UsersCollection db @ [u]) @ users) = Some u"
    unfolding u(1) by (rule find_append_Some)
  then have found: "find (username_is n) (UsersCollection db2) = Some u"
    by (simp add: later users)
  have issue: "SignIn sign cmp secret tokenExpiryTime env2 db2
                 (Some \<lparr>User.ID = i2, Username = n, Password = p\<rparr>)
               = Reply StatusOK (TokenJSON ?tok)"
    using SignIn_token [of "\<lparr>User.ID = i2, Username = n, Password = p\<rparr>" db2 u cmp env2
        sign secret tokenExpiryTime] found nonblank verifies driver
    by (simp add: u(2))
  have gate: "JWTMiddleware sign secret env3 ?tok = Next (Some (JString (Hex (User.ID u))))
             \<and> (\<exists>token. Parse sign (keyFunc secret) (Now env3) ?tok = Inr token
                       \<and> SuccessHandler token = Next (Some (JString (Hex (User.ID u)))))"
    if "Unix (Now env3) < ?E" for env3
    using that by (simp add: JWTMiddleware_issued Parse_issued SuccessHandler_def)
  have "assert_string (Some (JString (Hex (User.ID u)))) = Some (Hex (User.ID u))"
    by (simp add: assert_string_def)
  with issue gate ObjectIDFromHex_Hex [of "User.ID u"] show ?thesis
    by blast
qed

theorem sign_in_token_recovers_identifier_witness:
  "\<exists>tokenString.
     SignIn test_sign test_cmp ''secret'' 60 test_env
       \<lparr>UsersCollection = [\<lparr>User.ID = 18, Username = ''testjwt'', Password = ''$testpassword''\<rparr>],
        TasksCollection = []\<rparr>
       (Some \<lparr>User.ID = 0, Username = ''testjwt'', Password = ''testpassword''\<rparr>)
     = Reply StatusOK (TokenJSON tokenString)
   \<and> JWTMiddleware test_sign ''secret'' (test_env\<lparr>Now := 1720000090000000000\<rparr>) tokenString
     = Next (Some (JString (Hex 18)))"
proof -
  have up: "SignUp test_gen test_env \<lparr>UsersCollection = [], TasksCollection = []\<rparr>
              (Some \<lparr>User.ID = 0, Username = ''testjwt'', Password = ''testpassword''\<rparr>)
            = (Reply StatusCreated
                 (UserJSON \<lparr>User.ID = 18, Username = ''testjwt'', Password = ''$testpassword''\<rparr>),
               \<lparr>UsersCollection = [\<lparr>User.ID = 18, Username = ''testjwt'', Password = ''$testpassword''\<rparr>],
                TasksCollection = []\<rparr>)"
    by (simp add: SignUp_def Decode_def FindOne_def username_is_def zero_User_def HashPassword_def
          test_gen_def test_env_def InsertOne_User_def NilObjectID_def Let_def)
  have verifies: "CheckPasswordHash test_cmp ''testpassword'' (HashPassword test_gen ''testpassword'')"
    by (simp add: CheckPasswordHash_def HashPassword_def test_cmp_def test_gen_def)
  have driver: "\<not> ReadFails test_env"
    by (simp add: test_env_def)
  have before: "Unix (Now (test_env\<lparr>Now := 1720000090000000000\<rparr>)) < Unix (Now test_env + Seconds 60)"
    by (simp add: test_env_def Seconds_small Unix_def)
  have later: "UsersCollection
       \<lparr>UsersCollection = [\<lparr>User.ID = 18, Username = ''testjwt'', Password = ''$testpassword''\<rparr>],
        TasksCollection = []\<rparr>
     = UsersCollection
       \<lparr>UsersCollection = [\<lparr>User.ID = 18, Username = ''testjwt'', Password = ''$testpassword''\<rparr>],
        TasksCollection = []\<rparr> @ []"
    by simp
  from sign_in_token_recovers_identifier [OF up later _ _ verifies driver, of test_sign "''secret''" 60 0]
  obtain tokenString where
    "SignIn test_sign test_cmp ''secret'' 60 test_env
       \<lparr>UsersCollection = [\<lparr>User.ID = 18, Username = ''testjwt'', Password = ''$testpassword''\<rparr>],
        TasksCollection = []\<rparr>
       (Some \<lparr>User.ID = 0, Username = ''testjwt'', Password = ''testpassword''\<rparr>)
     = Reply StatusOK (TokenJSON tokenString)"
    "\<forall>env3. Unix (Now env3) < Unix (Now test_env + Seconds 60) \<longrightarrow>
       JWTMiddleware test_sign ''secret'' env3 tokenString = Next (Some (JString (Hex 18)))"
    by auto
  with before show ?thesis by blast
qed

text \<open>
  The claim as stated fails for a user created with a blank password: sign-up accepts
  it, sign-in refuses the same credentials with 400 before it looks the user up.
\<close>

theorem sign_in_refuses_blank_password_of_created_user:
  "SignUp test_gen test_env \<lparr>UsersCollection = [], TasksCollection = []\<rparr>
     (Some \<lparr>User.ID = 0, Username = ''testuser'', Password = []\<rparr>)
   = (Reply StatusCreated (UserJSON \<lparr>User.ID = 18, Username = ''testuser'', Password = ''$''\<rparr>),
      \<lparr>UsersCollection = [\<lparr>User.ID = 18, Username = ''testuser'', Password = ''$''\<rparr>],
       TasksCollection = []\<rparr>)
   \<and> CheckPasswordHash test_cmp [] ''$''
   \<and> SignIn test_sign test_cmp ''secret'' 60 test_env
       \<lparr>UsersCollection = [\<lparr>User.ID = 18, Username = ''testuser'', Password = ''$''\<rparr>],
        TasksCollection = []\<rparr>
       (Some \<lparr>User.ID = 0, Username = ''testuser'', Password = []\<rparr>)
   = Reply StatusBadRequest (ErrorJSON ''username and password should not be blank!'')"
  by (simp add: SignUp_def Decode_def FindOne_def username_is_def zero_User_def HashPassword_def
        test_gen_def test_env_def InsertOne_User_def NilObjectID_def Let_def
        CheckPasswordHash_def test_cmp_def SignIn_def)

end
